theory Spec2Isabelle
  imports Main "HOL-Library.Word" "HOL-Library.Sublist" "HOL-Library.List_Lexorder"
begin

section \<open>Wide strings\<close>

text \<open>
  \<open>std::wstring\<close> on Windows is a sequence of 16-bit code units.  String literals of
  the sources are written \<open>L ''...''\<close>.  \<open>towlower\<close> is the one of the "C" locale (the
  programs never call \<open>setlocale\<close>): it maps \<open>A..Z\<close> to \<open>a..z\<close> and nothing else.
\<close>

type_synonym wchar = "16 word"
type_synonym wstring = "wchar list"

definition L :: "string \<Rightarrow> wstring" where
  "L s = map (\<lambda>c. of_nat (of_char c)) s"

definition towlower :: "wchar \<Rightarrow> wchar" where
  "towlower c = (if 0x41 \<le> c \<and> c \<le> 0x5A then c + 0x20 else c)"

text \<open>\<open>static std::wstring ToLowerCase(const std::wstring& str)\<close> (privacy_injector.cpp),
  and the loops \<open>for (auto& c : procName) c = towlower(c)\<close> (a1_service_helper.cpp).\<close>

definition ToLowerCase :: "wstring \<Rightarrow> wstring" where
  "ToLowerCase str = map towlower str"

text \<open>\<open>s.find(t)\<close>: the first position at which \<open>t\<close> occurs in \<open>s\<close>; \<open>None\<close> is
  \<open>std::wstring::npos\<close>.\<close>

fun wfind :: "wstring \<Rightarrow> wstring \<Rightarrow> nat option" where
  "wfind [] t = (if t = [] then Some 0 else None)"
| "wfind (c # s) t = (if prefix t (c # s) then Some 0 else map_option Suc (wfind s t))"

text \<open>\<open>_wcsicmp(a, b) == 0\<close>: equality after lower-casing both sides.\<close>

definition wcsicmp_eq :: "wstring \<Rightarrow> wstring \<Rightarrow> bool" where
  "wcsicmp_eq a b = (map towlower a = map towlower b)"


section \<open>The service helper (a1_service_helper.cpp)\<close>

text \<open>
  Times are \<open>FILETIME\<close> values read into a \<open>ULARGE_INTEGER\<close>: unsigned 64-bit counts of
  100 ns ticks, subtracted with wrap-around and divided with truncation.
\<close>

type_synonym filetime = "64 word"
type_synonym dword = "32 word"

datatype lock_file = UPDATE_LOCK_FILE | RESTART_LOCK_FILE

text \<open>The calls by which a check acts on its surroundings, in the order they are made.
  \<open>Log\<close> appends a line to service_helper.log (rotating it to service_helper.log.old);
  it touches no lock file.  \<open>LogNum\<close> is a message formatted with one \<open>%lu\<close>.\<close>

datatype sh_call =
    Log wstring
  | LogNum wstring dword
  | DeleteFileW lock_file
  | CreateFileW lock_file
  | WriteFile lock_file
  | CreateProcessW wstring
  | Sleep nat

text \<open>
  What the helper reads from the machine.  \<open>locks f\<close> is the last-write time of lock file
  \<open>f\<close>, or \<open>None\<close> when \<open>GetFileAttributesExW\<close> fails; \<open>clock\<close> is what
  \<open>GetSystemTimeAsFileTime\<close> returns; \<open>snapshot\<close> is the list of executable names of a
  process snapshot (\<open>None\<close>: \<open>CreateToolhelp32Snapshot\<close> failed); \<open>app_mutex\<close> says
  whether \<open>OpenMutexW\<close> finds the application's mutex; \<open>app_exe_found\<close> whether
  \<open>GetFileAttributesW(appPath)\<close> succeeds.  The remaining fields answer the calls that
  change the machine: whether \<open>CreateFileW\<close> on the restart lock succeeds, the process
  id \<open>CreateProcessW\<close> yields (\<open>Inr pid\<close>; \<open>Inl e\<close> when it failed with
  \<open>GetLastError() = e\<close>), and the mutex and process list as they are seen after the five
  seconds' sleep that follows a launch.  \<open>DeleteFileW\<close>
  removes the file it names.  No other process acts during a check.
\<close>

record world =
  g_appDataDir :: wstring
  clock :: filetime
  locks :: "lock_file \<Rightarrow> filetime option"
  snapshot :: "wstring list option"
  app_mutex :: bool
  app_exe_found :: bool
  create_file_ok :: bool
  create_process :: "dword + dword"
  app_mutex_after :: bool
  snapshot_after :: "wstring list option"

definition UPDATE_LOCK_TIMEOUT_MINUTES :: "64 word" where
  "UPDATE_LOCK_TIMEOUT_MINUTES = 10"

definition RESTART_LOCK_TIMEOUT_SECONDS :: "64 word" where
  "RESTART_LOCK_TIMEOUT_SECONDS = 30"

definition APP_EXE_NAME :: wstring where
  "APP_EXE_NAME = L ''a1_tools.exe''"

definition IsUpdateInProgress :: "world \<Rightarrow> bool \<times> world \<times> sh_call list" where
  "IsUpdateInProgress w =
     (case locks w UPDATE_LOCK_FILE of
        None \<Rightarrow> (False, w, [])
      | Some lockTime \<Rightarrow>
          let currentTime = clock w;
              diffMinutes = (currentTime - lockTime) div (10000000 * 60)
          in if diffMinutes > UPDATE_LOCK_TIMEOUT_MINUTES
             then (False, w\<lparr>locks := (locks w)(UPDATE_LOCK_FILE := None)\<rparr>,
                   [Log (L ''Update lock file is stale, removing''), DeleteFileW UPDATE_LOCK_FILE])
             else (True, w, [Log (L ''Update in progress detected'')]))"

definition IsRestartPending :: "world \<Rightarrow> bool \<times> world \<times> sh_call list" where
  "IsRestartPending w =
     (case locks w RESTART_LOCK_FILE of
        None \<Rightarrow> (False, w, [])
      | Some lockTime \<Rightarrow>
          let currentTime = clock w;
              diffSeconds = (currentTime - lockTime) div 10000000
          in if diffSeconds > RESTART_LOCK_TIMEOUT_SECONDS
             then (False, w\<lparr>locks := (locks w)(RESTART_LOCK_FILE := None)\<rparr>,
                   [Log (L ''Restart lock file is stale, removing''), DeleteFileW RESTART_LOCK_FILE])
             else (True, w, []))"

definition installerNames :: "wstring list" where
  "installerNames =
     [L ''a1-tools-setup'', L ''a1tools_update'', L ''a1_tools_setup'', L ''A1-Tools-Setup'']"

definition IsInstallerRunning :: "world \<Rightarrow> bool \<times> sh_call list" where
  "IsInstallerRunning w =
     (case snapshot w of
        None \<Rightarrow> (False, [])
      | Some procs \<Rightarrow>
          if list_ex (\<lambda>szExeFile.
                list_ex (\<lambda>installer.
                  wfind (map towlower szExeFile) (map towlower installer) \<noteq> None)
                  installerNames) procs
          then (True, [Log (L ''Found installer process running'')])
          else (False, []))"

definition IsAppRunning :: "world \<Rightarrow> bool \<times> sh_call list" where
  "IsAppRunning w =
     (if app_mutex w then (True, [Log (L ''App detected via mutex'')])
      else case snapshot w of
             None \<Rightarrow> (False, [])
           | Some procs \<Rightarrow>
               if list_ex (\<lambda>szExeFile. wcsicmp_eq szExeFile APP_EXE_NAME) procs
               then (True, [Log (L ''App detected via process list'')])
               else (False, [Log (L ''App not detected by any method'')]))"

definition CreateRestartLock :: "world \<Rightarrow> world \<times> sh_call list" where
  "CreateRestartLock w =
     (if create_file_ok w
      then (w\<lparr>locks := (locks w)(RESTART_LOCK_FILE \<mapsto> clock w)\<rparr>,
            [CreateFileW RESTART_LOCK_FILE, WriteFile RESTART_LOCK_FILE])
      else (w, [CreateFileW RESTART_LOCK_FILE]))"

definition RemoveRestartLock :: "world \<Rightarrow> world \<times> sh_call list" where
  "RemoveRestartLock w =
     (w\<lparr>locks := (locks w)(RESTART_LOCK_FILE := None)\<rparr>, [DeleteFileW RESTART_LOCK_FILE])"

text \<open>\<open>Sleep(5000)\<close> moves the clock by 5000 ms = 50000000 ticks; after it the mutex and
  the process list are the ones the machine shows then.\<close>

definition after_sleep :: "world \<Rightarrow> world" where
  "after_sleep w =
     w\<lparr>clock := clock w + 50000000, app_mutex := app_mutex_after w,
       snapshot := snapshot_after w\<rparr>"

definition RecoverApp :: "world \<Rightarrow> world \<times> sh_call list" where
  "RecoverApp w =
     (let (w1, t1) = CreateRestartLock w;
          appPath = g_appDataDir w1 @ L [CHR 0x5C] @ APP_EXE_NAME
      in if \<not> app_exe_found w1
         then let (w2, t2) = RemoveRestartLock w1
              in (w2, t1 @ [Log (L ''App executable not found at: '' @ appPath)] @ t2)
         else
           let cmdLine = L [CHR 0x22] @ appPath @ L [CHR 0x22] @ L '' --auto-start --service-restart'';
               t2 = [Log (L ''Starting app: '' @ appPath), CreateProcessW cmdLine];
               (w3, t3) =
                 (case create_process w1 of
                    Inr dwProcessId \<Rightarrow>
                      let w2 = after_sleep w1;
                          (running, tr) = IsAppRunning w2
                      in (w2, [LogNum (L ''App started with PID: '') dwProcessId, Sleep 5000] @ tr @
                              [if running then Log (L ''App recovery successful'')
                               else Log (L ''App may not have started properly'')])
                  | Inl error \<Rightarrow> (w1, [LogNum (L ''Failed to start app, error: '') error]));
               (w4, t4) = RemoveRestartLock w3
           in (w4, t1 @ t2 @ t3 @ t4))"

definition PerformCheck :: "world \<Rightarrow> world \<times> sh_call list" where
  "PerformCheck w =
     (let t0 = [Log (L ''Performing availability check...'')];
          (upd, w1, t1) = IsUpdateInProgress w
      in if upd then (w1, t0 @ t1 @ [Log (L ''Update in progress, skipping check'')])
         else
           let (pend, w2, t2) = IsRestartPending w1
           in if pend then (w2, t0 @ t1 @ t2 @ [Log (L ''Restart already pending, skipping'')])
              else
                let (inst, t3) = IsInstallerRunning w2
                in if inst
                   then (w2, t0 @ t1 @ t2 @ t3 @ [Log (L ''Installer is running, skipping check'')])
                   else
                     let (running, t4) = IsAppRunning w2
                     in if \<not> running
                        then let (w3, t5) = RecoverApp w2
                             in (w3, t0 @ t1 @ t2 @ t3 @ t4 @
                                     [Log (L ''App is NOT running, initiating recovery...'')] @ t5)
                        else (w2, t0 @ t1 @ t2 @ t3 @ t4 @ [Log (L ''App is running normally'')]))"





fun is_create :: "sh_call \<Rightarrow> bool" where
  "is_create (CreateFileW f) = (f = RESTART_LOCK_FILE)"
| "is_create _ = False"

fun is_launch :: "sh_call \<Rightarrow> bool" where
  "is_launch (CreateProcessW cmd) = True"
| "is_launch _ = False"

fun is_remove :: "sh_call \<Rightarrow> bool" where
  "is_remove (DeleteFileW f) = (f = RESTART_LOCK_FILE)"
| "is_remove _ = False"


definition count_calls :: "(sh_call \<Rightarrow> bool) \<Rightarrow> sh_call list \<Rightarrow> nat" where
  "count_calls P tr = length (filter P tr)"



text \<open>A machine with a restart lock written 100 seconds ago, no update lock, the
  application neither running nor found on disk.\<close>

definition world_stale_restart_no_exe :: world where
  "world_stale_restart_no_exe =
     \<lparr>g_appDataDir = L ''C:'', clock = 1000000000,
      locks = (\<lambda>f. if f = RESTART_LOCK_FILE then Some 0 else None),
      snapshot = Some [L ''explorer.exe''], app_mutex = False, app_exe_found = False,
      create_file_ok = True, create_process = Inr 4242, app_mutex_after = True,
      snapshot_after = Some [L ''explorer.exe'', L ''a1_tools.exe'']\<rparr>"




section \<open>The privacy injector (privacy_injector.cpp)\<close>

text \<open>
  Pointer-sized values (\<open>HMODULE\<close>, \<open>HWND\<close>, \<open>LPVOID\<close>, \<open>FARPROC\<close>, \<open>DWORD_PTR\<close>) are
  64-bit words, as in the x64 build of the runner; \<open>0\<close> is the null pointer.  A thread's
  exit code is a \<open>DWORD\<close>.
\<close>

type_synonym addr = "64 word"

datatype wait_status = WAIT_OBJECT_0 | WAIT_TIMEOUT

text \<open>
  The answers of the operating system to the calls of the injector.  During one public
  operation the answer to a call depends on its arguments only.
  \<^item> \<open>existing_files\<close>: the paths at which a file exists;
  \<^item> \<open>process_snapshot\<close>: the entries \<open>(th32ProcessID, szExeFile)\<close> of a process
    snapshot, \<open>None\<close> when \<open>CreateToolhelp32Snapshot\<close> fails;
  \<^item> \<open>top_level_windows\<close>: what \<open>EnumWindows\<close> enumerates, each window with the id of
    its process and with \<open>IsWindowVisible\<close>;
  \<^item> \<open>can_open pid\<close>: \<open>OpenProcess\<close> yields a handle;
  \<^item> \<open>virtual_alloc pid size\<close>: the address \<open>VirtualAllocEx\<close> returns;
  \<^item> \<open>can_write pid address\<close>: \<open>WriteProcessMemory\<close> succeeds;
  \<^item> \<open>load_library_address\<close>: \<open>GetProcAddress(kernel32, "LoadLibraryW")\<close>;
  \<^item> \<open>remote_thread pid start arg\<close>: \<open>None\<close> when \<open>CreateRemoteThread\<close> fails;
    otherwise what \<open>WaitForSingleObject(hThread, 5000)\<close> returns, and the value that
    \<open>exitCode\<close> (initialised to 0) holds after \<open>GetExitCodeThread\<close>;
  \<^item> \<open>process_modules pid\<close>: the modules of the process in the order in which
    \<open>EnumProcessModules\<close> enumerates them (\<open>cbNeeded / sizeof(HMODULE)\<close> of them; the
    first 1024 are stored in \<open>hMods\<close>), \<open>None\<close> when it fails;
  \<^item> \<open>module_file_name pid h\<close>: the name \<open>GetModuleFileNameExW\<close> stores, \<open>None\<close>
    when it fails;
  \<^item> \<open>load_library path\<close>: the handle \<open>LoadLibraryW\<close> returns in this process;
  \<^item> \<open>proc_address h name\<close>: what \<open>GetProcAddress\<close> returns;
  \<^item> \<open>set_display_affinity hwnd affinity\<close>: \<open>SetWindowDisplayAffinity\<close>, called inside
    the process that owns the window, succeeds.
\<close>

record os =
  existing_files :: "wstring \<Rightarrow> bool"
  process_snapshot :: "(dword \<times> wstring) list option"
  top_level_windows :: "(addr \<times> dword \<times> bool) list"
  can_open :: "dword \<Rightarrow> bool"
  virtual_alloc :: "dword \<Rightarrow> nat \<Rightarrow> addr"
  can_write :: "dword \<Rightarrow> addr \<Rightarrow> bool"
  load_library_address :: addr
  remote_thread :: "dword \<Rightarrow> addr \<Rightarrow> addr \<Rightarrow> (wait_status \<times> dword) option"
  process_modules :: "dword \<Rightarrow> addr list option"
  module_file_name :: "dword \<Rightarrow> addr \<Rightarrow> wstring option"
  load_library :: "wstring \<Rightarrow> addr"
  proc_address :: "addr \<Rightarrow> string \<Rightarrow> addr"
  set_display_affinity :: "addr \<Rightarrow> dword \<Rightarrow> bool"





text \<open>The calls that touch another process or load a module, in the order they are made
  (\<open>OutputDebugStringW\<close> is left out).\<close>

datatype os_call =
    OpenProcess dword
  | VirtualAllocEx dword nat
  | WriteProcessMemory dword addr
  | VirtualFreeEx dword addr
  | CreateRemoteThread dword addr addr
  | WaitForSingleObject nat
  | CloseHandle_hThread dword
  | CloseHandle_hProcess dword
  | LoadLibraryW wstring
  | FreeLibrary addr

text \<open>\<open>std::map<std::wstring, bool>\<close>: an association list with strictly increasing keys
  (\<open>std::wstring\<close>'s order compares code units lexicographically).  \<open>map_assign\<close> is
  \<open>m[k] = v\<close>.\<close>

fun map_assign :: "wstring \<Rightarrow> bool \<Rightarrow> (wstring \<times> bool) list \<Rightarrow> (wstring \<times> bool) list" where
  "map_assign k v [] = [(k, v)]"
| "map_assign k v ((k', v') # m) =
     (if k = k' then (k, v) # m
      else if k < k' then (k, v) # (k', v') # m
      else (k', v') # map_assign k v m)"

record injector =
  payload_dll_path :: wstring
  injected_processes :: "dword \<rightharpoonup> addr"
  hidden_process_names :: "(wstring \<times> bool) list"
  initialized :: bool

text \<open>The constructor: \<open>PrivacyInjector() : initialized_(false)\<close>.\<close>

definition PrivacyInjector :: injector where
  "PrivacyInjector =
     \<lparr>payload_dll_path = [], injected_processes = Map.empty, hidden_process_names = [],
      initialized = False\<rparr>"

text \<open>\<open>GetFileAttributesW(path) != INVALID_FILE_ATTRIBUTES\<close>; the empty path names no
  file.\<close>

definition GetFileAttributesW :: "os \<Rightarrow> wstring \<Rightarrow> bool" where
  "GetFileAttributesW sys path = (path \<noteq> [] \<and> existing_files sys path)"

definition Initialize :: "os \<Rightarrow> wstring \<Rightarrow> injector \<Rightarrow> bool \<times> injector" where
  "Initialize sys payloadDllPath s =
     (if \<not> GetFileAttributesW sys payloadDllPath then (False, s)
      else (True, s\<lparr>payload_dll_path := payloadDllPath, initialized := True\<rparr>))"

definition GetProcessIdsByName :: "os \<Rightarrow> wstring \<Rightarrow> dword list" where
  "GetProcessIdsByName sys processName =
     (let lowerName0 = ToLowerCase processName;
          lowerName = (if wfind lowerName0 (L ''.exe'') = None then lowerName0 @ L ''.exe''
                       else lowerName0)
      in case process_snapshot sys of
           None \<Rightarrow> []
         | Some entries \<Rightarrow>
             map fst (filter (\<lambda>(th32ProcessID, szExeFile).
                        let exeName = ToLowerCase szExeFile
                        in exeName = lowerName \<or> wfind exeName lowerName \<noteq> None) entries))"

definition GetProcessWindows :: "os \<Rightarrow> dword \<Rightarrow> addr list" where
  "GetProcessWindows sys pid =
     map fst (filter (\<lambda>(hwnd, windowPid, visible). windowPid = pid \<and> visible)
                (top_level_windows sys))"

definition InjectDll :: "os \<Rightarrow> dword \<Rightarrow> injector \<Rightarrow> bool \<times> injector \<times> os_call list" where
  "InjectDll sys pid s =
     (if payload_dll_path s = [] then (False, s, [])
      else if injected_processes s pid \<noteq> None then (True, s, [])
      else if \<not> can_open sys pid then (False, s, [OpenProcess pid])
      else
        let dllPathSize = (length (payload_dll_path s) + 1) * 2;
            remotePath = virtual_alloc sys pid dllPathSize;
            t1 = [OpenProcess pid, VirtualAllocEx pid dllPathSize]
        in if remotePath = 0 then (False, s, t1 @ [CloseHandle_hProcess pid])
           else
             let t2 = t1 @ [WriteProcessMemory pid remotePath];
                 release = [VirtualFreeEx pid remotePath, CloseHandle_hProcess pid]
             in if \<not> can_write sys pid remotePath then (False, s, t2 @ release)
                else
                  let loadLibrary = load_library_address sys
                  in if loadLibrary = 0 then (False, s, t2 @ release)
                     else
                       let t3 = t2 @ [CreateRemoteThread pid loadLibrary remotePath]
                       in case remote_thread sys pid loadLibrary remotePath of
                            None \<Rightarrow> (False, s, t3 @ release)
                          | Some (waited, exitCode) \<Rightarrow>
                              let remoteModule = (ucast exitCode :: addr);
                                  t4 = t3 @ [WaitForSingleObject 5000, CloseHandle_hThread pid]
                                          @ release
                              in if remoteModule \<noteq> 0
                                 then (True,
                                       s\<lparr>injected_processes :=
                                            (injected_processes s)(pid \<mapsto> remoteModule)\<rparr>, t4)
                                 else (False, s, t4))"

text \<open>
  \<open>HMODULE hMods[1024]\<close>: of the modules enumerated, the array holds the first 1024.
  The loop of \<open>CallSetWindowVisibility\<close> runs over the indices below
  \<open>cbNeeded / sizeof(HMODULE)\<close>; for a process of more than 1024 modules its reads from
  index 1024 on lie behind the array, and are taken to meet no module of the name looked
  for.  \<open>find_payload_module\<close> is the loop over the handles held: the first module whose
  file name contains \<open>privacy_payload.dll\<close>; \<open>0\<close> is \<open>targetModule = nullptr\<close>.
\<close>

definition hMods_held :: "addr list \<Rightarrow> addr list" where
  "hMods_held modules = take 1024 modules"

fun find_payload_module :: "os \<Rightarrow> dword \<Rightarrow> addr list \<Rightarrow> addr" where
  "find_payload_module sys pid [] = 0"
| "find_payload_module sys pid (h # hMods) =
     (case module_file_name sys pid h of
        Some modName \<Rightarrow>
          if wfind modName (L ''privacy_payload.dll'') \<noteq> None then h
          else find_payload_module sys pid hMods
      | None \<Rightarrow> find_payload_module sys pid hMods)"

definition CallSetWindowVisibility ::
  "os \<Rightarrow> dword \<Rightarrow> addr \<Rightarrow> bool \<Rightarrow> injector \<Rightarrow> bool \<times> injector \<times> os_call list" where
  "CallSetWindowVisibility sys pid hwnd hide s =
     (let (injected, s1, t1) = InjectDll sys pid s
      in if \<not> injected then (False, s1, t1)
         else if \<not> can_open sys pid then (False, s1, t1 @ [OpenProcess pid])
         else
           let t2 = t1 @ [OpenProcess pid];
               targetModule = (case process_modules sys pid of
                                 Some modules \<Rightarrow>
                                   find_payload_module sys pid (hMods_held modules)
                               | None \<Rightarrow> 0)
           in if targetModule = 0 then (False, s1, t2 @ [CloseHandle_hProcess pid])
              else
                let localDll = load_library sys (payload_dll_path s1);
                    t3 = t2 @ [LoadLibraryW (payload_dll_path s1)]
                in if localDll = 0 then (False, s1, t3 @ [CloseHandle_hProcess pid])
                   else
                     let localHideAll = proc_address sys localDll ''HideAllProcessWindows'';
                         t4 = t3 @ [FreeLibrary localDll]
                     in if localHideAll = 0 then (False, s1, t4 @ [CloseHandle_hProcess pid])
                        else
                          let hideAllOffset = localHideAll - localDll;
                              remoteHideAll = targetModule + hideAllOffset;
                              lpParameter = (if hide then 1 else 0);
                              t5 = t4 @ [CreateRemoteThread pid remoteHideAll lpParameter]
                          in case remote_thread sys pid remoteHideAll lpParameter of
                               None \<Rightarrow> (False, s1, t5 @ [CloseHandle_hProcess pid])
                             | Some (waited, exitCode) \<Rightarrow>
                                 (exitCode > 0, s1,
                                  t5 @ [WaitForSingleObject 5000, CloseHandle_hThread pid,
                                        CloseHandle_hProcess pid]))"

definition HideProcessWindowsByPid ::
  "os \<Rightarrow> dword \<Rightarrow> bool \<Rightarrow> injector \<Rightarrow> bool \<times> injector \<times> os_call list" where
  "HideProcessWindowsByPid sys pid hide s =
     (case GetProcessWindows sys pid of
        [] \<Rightarrow> (False, s, [])
      | hwnd # _ \<Rightarrow> CallSetWindowVisibility sys pid hwnd hide s)"

text \<open>The loop \<open>for (DWORD pid : pids)\<close> of \<open>HideProcessWindows\<close>.\<close>

fun hide_pids ::
  "os \<Rightarrow> bool \<Rightarrow> dword list \<Rightarrow> int \<Rightarrow> injector \<Rightarrow> int \<times> injector \<times> os_call list" where
  "hide_pids sys hide [] totalAffected s = (totalAffected, s, [])"
| "hide_pids sys hide (pid # pids) totalAffected s =
     (let (ok, s1, t1) = HideProcessWindowsByPid sys pid hide s;
          (n, s2, t2) = hide_pids sys hide pids (if ok then totalAffected + 1 else totalAffected) s1
      in (n, s2, t1 @ t2))"

definition HideProcessWindows ::
  "os \<Rightarrow> wstring \<Rightarrow> bool \<Rightarrow> injector \<Rightarrow> int \<times> injector \<times> os_call list" where
  "HideProcessWindows sys processName hide s =
     (if \<not> initialized s then (0, s, [])
      else
        let lowerName = ToLowerCase processName;
            pids = GetProcessIdsByName sys processName;
            (totalAffected, s1, t) = hide_pids sys hide pids 0 s
        in if totalAffected > 0
           then (totalAffected,
                 s1\<lparr>hidden_process_names := map_assign lowerName hide (hidden_process_names s1)\<rparr>,
                 t)
           else (totalAffected, s1, t))"

definition GetHiddenProcesses :: "injector \<Rightarrow> wstring list" where
  "GetHiddenProcesses s = map fst (filter snd (hidden_process_names s))"


text \<open>
  The loop of \<open>RestoreAll\<close> visits the keys of \<open>hidden_process_names_\<close> in order and
  reads each value when it comes to it.  The call in its body assigns to the key
  \<open>ToLowerCase(pair.first)\<close> only; every key of the map is a result of \<open>ToLowerCase\<close>,
  so that is the key being visited, and the set of keys stays as it was when the loop
  began.
\<close>

fun restore_loop :: "os \<Rightarrow> wstring list \<Rightarrow> injector \<Rightarrow> injector \<times> os_call list" where
  "restore_loop sys [] s = (s, [])"
| "restore_loop sys (k # ks) s =
     (if map_of (hidden_process_names s) k = Some True
      then let (n, s1, t1) = HideProcessWindows sys k False s;
               (s2, t2) = restore_loop sys ks s1
           in (s2, t1 @ t2)
      else restore_loop sys ks s)"

definition RestoreAll :: "os \<Rightarrow> injector \<Rightarrow> injector \<times> os_call list" where
  "RestoreAll sys s =
     (let (s1, t) = restore_loop sys (map fst (hidden_process_names s)) s
      in (s1\<lparr>hidden_process_names := [], injected_processes := Map.empty\<rparr>, t))"

text \<open>The public operations that change the injector, and the states they lead to from
  the constructor's.\<close>

datatype request =
    ReqInitialize os wstring
  | ReqHideProcessWindows os wstring bool
  | ReqHideProcessWindowsByPid os dword bool
  | ReqRestoreAll os

fun serve :: "injector \<Rightarrow> request \<Rightarrow> injector" where
  "serve s (ReqInitialize sys path) = snd (Initialize sys path s)"
| "serve s (ReqHideProcessWindows sys name hide) = fst (snd (HideProcessWindows sys name hide s))"
| "serve s (ReqHideProcessWindowsByPid sys pid hide) =
     fst (snd (HideProcessWindowsByPid sys pid hide s))"
| "serve s (ReqRestoreAll sys) = fst (RestoreAll sys s)"

definition run :: "request list \<Rightarrow> injector" where
  "run reqs = foldl serve PrivacyInjector reqs"

text \<open>What the specification says \<open>restoreAll\<close> does before it clears its state: the show
  operation, once for each of the given names, in order.\<close>

fun show_each :: "os \<Rightarrow> wstring list \<Rightarrow> injector \<Rightarrow> injector \<times> os_call list" where
  "show_each sys [] s = (s, [])"
| "show_each sys (name # names) s =
     (let (n, s1, t1) = HideProcessWindows sys name False s;
          (s2, t2) = show_each sys names s1
      in (s2, t1 @ t2))"

text \<open>The keys of \<open>hidden_process_names_\<close> are in strictly increasing order, and each is
  its own lower-case form.\<close>

definition hidden_names_ok :: "injector \<Rightarrow> bool" where
  "hidden_names_ok s =
     (sorted_wrt (<) (map fst (hidden_process_names s))
      \<and> list_all (\<lambda>k. ToLowerCase k = k) (map fst (hidden_process_names s)))"



text \<open>Whether the file name of module \<open>h\<close> of process \<open>pid\<close> is known and contains
  \<open>privacy_payload.dll\<close>.\<close>

definition names_payload :: "os \<Rightarrow> dword \<Rightarrow> addr \<Rightarrow> bool" where
  "names_payload sys pid h =
     (case module_file_name sys pid h of
        None \<Rightarrow> False
      | Some modName \<Rightarrow> sublist (L ''privacy_payload.dll'') modName)"

text \<open>A machine on which Notepad runs as process 1234 with one visible window.  The
  payload is loaded into it at \<open>0x7FF812340000\<close>; the remote \<open>LoadLibraryW\<close> thread exits
  with the low 32 bits of that address, the remote \<open>HideAllProcessWindows\<close> thread with
  the count 1.\<close>

definition payload_path :: wstring where
  "payload_path = L ''privacy_payload.dll''"

definition notepad_os :: os where
  "notepad_os =
     \<lparr>existing_files = (\<lambda>path. path = payload_path),
      process_snapshot = Some [(4, L ''System''), (1234, L ''Notepad.exe'')],
      top_level_windows = [(0x100, 1234, True)],
      can_open = (\<lambda>pid. True),
      virtual_alloc = (\<lambda>pid size. 0x20000),
      can_write = (\<lambda>pid address. True),
      load_library_address = 0x7FF800001000,
      remote_thread = (\<lambda>pid start arg.
         if start = 0x7FF800001000 then Some (WAIT_OBJECT_0, 0x12340000)
         else Some (WAIT_OBJECT_0, 1)),
      process_modules = (\<lambda>pid. Some [0x7FF700000000, 0x7FF812340000]),
      module_file_name = (\<lambda>pid h.
         if h = 0x7FF812340000 then Some (L ''privacy_payload.dll'') else Some (L ''notepad.exe'')),
      load_library = (\<lambda>path. 0x180000000),
      proc_address = (\<lambda>h name. h + 0x1100),
      set_display_affinity = (\<lambda>hwnd affinity. True)\<rparr>"

text \<open>The same machine when neither remote thread ends within five seconds:
  \<open>WaitForSingleObject\<close> returns \<open>WAIT_TIMEOUT\<close>, and \<open>GetExitCodeThread\<close> stores
  \<open>STILL_ACTIVE\<close> (259), its answer for a thread that has not terminated.\<close>

definition hung_os :: os where
  "hung_os = notepad_os\<lparr>remote_thread := (\<lambda>pid start arg. Some (WAIT_TIMEOUT, 259))\<rparr>"


text \<open>The injector after \<open>Initialize\<close>, and after a first hide of Notepad.\<close>

definition initialized_injector :: injector where
  "initialized_injector = run [ReqInitialize notepad_os payload_path]"

definition notepad_hidden :: injector where
  "notepad_hidden =
     run [ReqInitialize notepad_os payload_path,
          ReqHideProcessWindows notepad_os (L ''notepad'') True]"

text \<open>A request that is a successful \<open>Initialize\<close>.\<close>

fun initialize_succeeds :: "request \<Rightarrow> bool" where
  "initialize_succeeds (ReqInitialize sys path) = GetFileAttributesW sys path"
| "initialize_succeeds _ = False"

text \<open>A machine on which the payload file does not exist.\<close>

definition no_payload_os :: os where
  "no_payload_os = notepad_os\<lparr>existing_files := (\<lambda>path. False)\<rparr>"



section \<open>Properties of the service helper\<close>

subsection \<open>Lock files\<close>

lemma floor_gt_iff:
  fixes n q k :: nat
  assumes "0 < q"
  shows "k < n div q \<longleftrightarrow> Suc k * q \<le> n"
proof -
  have "k < n div q \<longleftrightarrow> Suc k \<le> n div q" by auto
  also have "\<dots> \<longleftrightarrow> Suc k * q \<le> n" using assms by (rule less_eq_div_iff_mult_less_eq)
  finally show ?thesis .
qed


lemma stale_seconds_iff:
  "((c::64 word) - t) div 10000000 > RESTART_LOCK_TIMEOUT_SECONDS \<longleftrightarrow> 310000000 \<le> unat (c - t)"
  unfolding RESTART_LOCK_TIMEOUT_SECONDS_def
  using floor_gt_iff [of 10000000 30 "unat (c - t)"]
  by (simp add: word_less_nat_alt unat_div) 



lemma IsRestartPending_Some:
  "locks w RESTART_LOCK_FILE = Some t \<Longrightarrow>
   IsRestartPending w =
     (if 310000000 \<le> unat (clock w - t)
      then (False, w\<lparr>locks := (locks w)(RESTART_LOCK_FILE := None)\<rparr>,
            [Log (L ''Restart lock file is stale, removing''), DeleteFileW RESTART_LOCK_FILE])
      else (True, w, []))"
  unfolding IsRestartPending_def Let_def
  by (simp only: option.case stale_seconds_iff)












subsection \<open>One check\<close>

lemma count_calls_simps:
  "count_calls P [] = 0"
  "count_calls P (c # tr) = (if P c then 1 else 0) + count_calls P tr"
  "count_calls P (tr @ tr') = count_calls P tr + count_calls P tr'"
  by (simp_all add: count_calls_def)

lemma IsAppRunning_counts:
  "count_calls is_create (snd (IsAppRunning w)) = 0"
  "count_calls is_launch (snd (IsAppRunning w)) = 0"
  "count_calls is_remove (snd (IsAppRunning w)) = 0"
  by (simp_all add: IsAppRunning_def count_calls_simps split: option.split)

lemma IsInstallerRunning_counts:
  "count_calls is_create (snd (IsInstallerRunning w)) = 0"
  "count_calls is_launch (snd (IsInstallerRunning w)) = 0"
  "count_calls is_remove (snd (IsInstallerRunning w)) = 0"
  by (simp_all add: IsInstallerRunning_def count_calls_simps split: option.split)

lemma IsUpdateInProgress_counts:
  "count_calls is_create (snd (snd (IsUpdateInProgress w))) = 0"
  "count_calls is_launch (snd (snd (IsUpdateInProgress w))) = 0"
  "count_calls is_remove (snd (snd (IsUpdateInProgress w))) = 0"
  by (simp_all add: IsUpdateInProgress_def Let_def count_calls_simps split: option.split)

lemma IsUpdateInProgress_world:
  "fst (snd (IsUpdateInProgress w)) = w \<or>
   fst (snd (IsUpdateInProgress w)) = w\<lparr>locks := (locks w)(UPDATE_LOCK_FILE := None)\<rparr>"
  by (simp add: IsUpdateInProgress_def Let_def split: option.split)

lemma IsRestartPending_counts:
  "count_calls is_create (snd (snd (IsRestartPending w))) = 0"
  "count_calls is_launch (snd (snd (IsRestartPending w))) = 0"
  "fst (IsRestartPending w) = False \<Longrightarrow>
     count_calls is_remove (snd (snd (IsRestartPending w))) =
       (if locks w RESTART_LOCK_FILE = None then 0 else 1)"
  by (auto simp add: IsRestartPending_def Let_def count_calls_simps split: option.split)

lemma IsRestartPending_world:
  "locks (fst (snd (IsRestartPending w))) UPDATE_LOCK_FILE = locks w UPDATE_LOCK_FILE"
  "app_exe_found (fst (snd (IsRestartPending w))) = app_exe_found w"
  "snapshot (fst (snd (IsRestartPending w))) = snapshot w"
  "app_mutex (fst (snd (IsRestartPending w))) = app_mutex w"
  by (simp_all add: IsRestartPending_def Let_def split: option.split)

lemma RecoverApp_counts:
  "count_calls is_create (snd (RecoverApp w)) = 1"
  "count_calls is_launch (snd (RecoverApp w)) = (if app_exe_found w then 1 else 0)"
  "count_calls is_remove (snd (RecoverApp w)) = 1"
  "locks (fst (RecoverApp w)) RESTART_LOCK_FILE = None"
  by (simp_all add: RecoverApp_def CreateRestartLock_def RemoveRestartLock_def Let_def
        after_sleep_def count_calls_simps IsAppRunning_counts split_beta split: sum.split)


lemma IsUpdateInProgress_frame:
  "clock (fst (snd (IsUpdateInProgress w))) = clock w"
  "locks (fst (snd (IsUpdateInProgress w))) RESTART_LOCK_FILE = locks w RESTART_LOCK_FILE"
  "snapshot (fst (snd (IsUpdateInProgress w))) = snapshot w"
  "app_mutex (fst (snd (IsUpdateInProgress w))) = app_mutex w"
  "app_exe_found (fst (snd (IsUpdateInProgress w))) = app_exe_found w"
  by (simp_all add: IsUpdateInProgress_def Let_def split: option.split)

lemma IsRestartPending_cong:
  assumes "clock w' = clock w" and "locks w' RESTART_LOCK_FILE = locks w RESTART_LOCK_FILE"
  shows "fst (IsRestartPending w') = fst (IsRestartPending w)"
    and "snd (snd (IsRestartPending w')) = snd (snd (IsRestartPending w))"
  using assms by (simp_all add: IsRestartPending_def Let_def split: option.split)

lemma IsInstallerRunning_cong:
  "snapshot w' = snapshot w \<Longrightarrow> IsInstallerRunning w' = IsInstallerRunning w"
  by (simp add: IsInstallerRunning_def)

lemma IsAppRunning_cong:
  "snapshot w' = snapshot w \<Longrightarrow> app_mutex w' = app_mutex w \<Longrightarrow> IsAppRunning w' = IsAppRunning w"
  by (simp add: IsAppRunning_def)

lemma PerformCheck_unfold:
  "PerformCheck w =
     (let t0 = [Log (L ''Performing availability check...'')];
          r1 = IsUpdateInProgress w; w1 = fst (snd r1); t1 = snd (snd r1)
      in if fst r1 then (w1, t0 @ t1 @ [Log (L ''Update in progress, skipping check'')])
         else
           let r2 = IsRestartPending w1; w2 = fst (snd r2); t2 = snd (snd r2)
           in if fst r2 then (w2, t0 @ t1 @ t2 @ [Log (L ''Restart already pending, skipping'')])
              else
                let r3 = IsInstallerRunning w2; t3 = snd r3
                in if fst r3
                   then (w2, t0 @ t1 @ t2 @ t3 @ [Log (L ''Installer is running, skipping check'')])
                   else
                     let r4 = IsAppRunning w2; t4 = snd r4
                     in if \<not> fst r4
                        then (fst (RecoverApp w2), t0 @ t1 @ t2 @ t3 @ t4 @
                                     [Log (L ''App is NOT running, initiating recovery...'')] @
                                     snd (RecoverApp w2))
                        else (w2, t0 @ t1 @ t2 @ t3 @ t4 @ [Log (L ''App is running normally'')]))"
  by (simp add: PerformCheck_def Let_def split_beta)

lemma PerformCheck_recovers:
  assumes "fst (IsUpdateInProgress w) = False" and "fst (IsRestartPending w) = False"
    and "fst (IsInstallerRunning w) = False" and "fst (IsAppRunning w) = False"
  shows "PerformCheck w =
     (fst (RecoverApp (fst (snd (IsRestartPending (fst (snd (IsUpdateInProgress w))))))),
      [Log (L ''Performing availability check...'')] @ snd (snd (IsUpdateInProgress w)) @
      snd (snd (IsRestartPending w)) @ snd (IsInstallerRunning w) @ snd (IsAppRunning w) @
      [Log (L ''App is NOT running, initiating recovery...'')] @
      snd (RecoverApp (fst (snd (IsRestartPending (fst (snd (IsUpdateInProgress w))))))))"
proof -
  let ?w1 = "fst (snd (IsUpdateInProgress w))"
  let ?w2 = "fst (snd (IsRestartPending ?w1))"
  have r2: "fst (IsRestartPending ?w1) = False"
       "snd (snd (IsRestartPending ?w1)) = snd (snd (IsRestartPending w))"
    using IsRestartPending_cong [of ?w1 w] assms(2) by (simp_all add: IsUpdateInProgress_frame)
  have r3: "IsInstallerRunning ?w2 = IsInstallerRunning w"
    by (rule IsInstallerRunning_cong) (simp add: IsRestartPending_world IsUpdateInProgress_frame)
  have r4: "IsAppRunning ?w2 = IsAppRunning w"
    by (rule IsAppRunning_cong) (simp_all add: IsRestartPending_world IsUpdateInProgress_frame)
  show ?thesis
    by (simp only: PerformCheck_unfold Let_def assms r2 r3 r4 if_False if_True not_False_eq_True)
qed


text \<open>
  Claim C1, amended.  In a check that finds no update lock active, no restart lock active,
  no installer running and the application not running, the restart lock is created
  exactly once; the application is launched exactly once if its executable is found on
  disk and not at all otherwise, whatever the launch yields; the restart lock is deleted
  exactly once by the recovery, and once more before it when a stale restart lock was
  found; and no restart lock is left behind.
\<close>

theorem PerformCheck_recovery_counts:
  assumes "fst (IsUpdateInProgress w) = False" and "fst (IsRestartPending w) = False"
    and "fst (IsInstallerRunning w) = False" and "fst (IsAppRunning w) = False"
  shows "count_calls is_create (snd (PerformCheck w)) = 1
       \<and> count_calls is_launch (snd (PerformCheck w)) = (if app_exe_found w then 1 else 0)
       \<and> count_calls is_remove (snd (PerformCheck w)) =
             (if locks w RESTART_LOCK_FILE = None then 1 else 2)
       \<and> locks (fst (PerformCheck w)) RESTART_LOCK_FILE = None"
proof -
  let ?w2 = "fst (snd (IsRestartPending (fst (snd (IsUpdateInProgress w)))))"
  have exe: "app_exe_found ?w2 = app_exe_found w"
    by (simp add: IsRestartPending_world IsUpdateInProgress_frame)
  note eq = PerformCheck_recovers [OF assms]
  have "count_calls is_create (snd (PerformCheck w)) = 1"
    by (simp add: eq count_calls_simps IsUpdateInProgress_counts IsRestartPending_counts
        IsInstallerRunning_counts IsAppRunning_counts RecoverApp_counts)
  moreover have "count_calls is_launch (snd (PerformCheck w)) = (if app_exe_found w then 1 else 0)"
    by (simp add: eq count_calls_simps IsUpdateInProgress_counts IsRestartPending_counts
        IsInstallerRunning_counts IsAppRunning_counts RecoverApp_counts exe)
  moreover have "count_calls is_remove (snd (PerformCheck w)) =
             (if locks w RESTART_LOCK_FILE = None then 1 else 2)"
    by (simp add: eq count_calls_simps IsUpdateInProgress_counts
        IsRestartPending_counts(3) [OF assms(2)]
        IsInstallerRunning_counts IsAppRunning_counts RecoverApp_counts)
  moreover have "locks (fst (PerformCheck w)) RESTART_LOCK_FILE = None"
    by (simp add: eq RecoverApp_counts)
  ultimately show ?thesis by blast
qed

lemma world_stale_restart_no_exe_checks:
  "fst (IsUpdateInProgress world_stale_restart_no_exe) = False"
  "fst (IsRestartPending world_stale_restart_no_exe) = False"
  "fst (IsInstallerRunning world_stale_restart_no_exe) = False"
  "fst (IsAppRunning world_stale_restart_no_exe) = False"
     apply (simp add: IsUpdateInProgress_def world_stale_restart_no_exe_def)
    apply (simp add: IsRestartPending_def world_stale_restart_no_exe_def
      RESTART_LOCK_TIMEOUT_SECONDS_def)
   apply (simp add: IsInstallerRunning_def world_stale_restart_no_exe_def installerNames_def L_def
      towlower_def)
  apply (simp add: IsAppRunning_def world_stale_restart_no_exe_def APP_EXE_NAME_def L_def
      wcsicmp_eq_def towlower_def)
  done


theorem PerformCheck_recovery_counts_witness:
  "fst (IsUpdateInProgress world_stale_restart_no_exe) = False
   \<and> fst (IsRestartPending world_stale_restart_no_exe) = False
   \<and> fst (IsInstallerRunning world_stale_restart_no_exe) = False
   \<and> fst (IsAppRunning world_stale_restart_no_exe) = False
   \<and> count_calls is_create (snd (PerformCheck world_stale_restart_no_exe)) = 1
   \<and> locks (fst (PerformCheck world_stale_restart_no_exe)) RESTART_LOCK_FILE = None"
  using PerformCheck_recovery_counts [OF world_stale_restart_no_exe_checks]
    world_stale_restart_no_exe_checks
  by simp

text \<open>
  Claim C1 as stated fails: with a stale restart lock on disk and the executable of the
  application missing, a check that meets all four conditions launches nothing and
  deletes the restart lock twice.
\<close>

theorem PerformCheck_no_launch_two_removals:
  "fst (IsUpdateInProgress world_stale_restart_no_exe) = False
   \<and> fst (IsRestartPending world_stale_restart_no_exe) = False
   \<and> fst (IsInstallerRunning world_stale_restart_no_exe) = False
   \<and> fst (IsAppRunning world_stale_restart_no_exe) = False
   \<and> count_calls is_launch (snd (PerformCheck world_stale_restart_no_exe)) = 0
   \<and> count_calls is_remove (snd (PerformCheck world_stale_restart_no_exe)) = 2"
proof -
  have a: "app_exe_found world_stale_restart_no_exe = False"
    "locks world_stale_restart_no_exe RESTART_LOCK_FILE = Some 0"
    by (simp_all add: world_stale_restart_no_exe_def)
  have b: "snd (snd (IsUpdateInProgress world_stale_restart_no_exe)) = []"
    "fst (snd (IsUpdateInProgress world_stale_restart_no_exe)) = world_stale_restart_no_exe"
    by (simp_all add: IsUpdateInProgress_def world_stale_restart_no_exe_def)
  have c: "snd (snd (IsRestartPending world_stale_restart_no_exe)) =
      [Log (L ''Restart lock file is stale, removing''), DeleteFileW RESTART_LOCK_FILE]"
    by (simp add: IsRestartPending_Some [OF a(2)]) (simp add: world_stale_restart_no_exe_def)
  have d: "app_exe_found (fst (snd (IsRestartPending world_stale_restart_no_exe))) = False"
    by (simp add: IsRestartPending_world a)
  have e: "count_calls is_launch (snd (PerformCheck world_stale_restart_no_exe)) = 0"
    by (simp add: PerformCheck_recovers [OF world_stale_restart_no_exe_checks] b c d
        count_calls_simps IsInstallerRunning_counts IsAppRunning_counts RecoverApp_counts)
  have f: "count_calls is_remove (snd (PerformCheck world_stale_restart_no_exe)) = 2"
    by (simp add: PerformCheck_recovers [OF world_stale_restart_no_exe_checks] b c d
        count_calls_simps IsInstallerRunning_counts IsAppRunning_counts RecoverApp_counts)
  show ?thesis using world_stale_restart_no_exe_checks e f by simp
qed







section \<open>Properties of the privacy injector\<close>

subsection \<open>Looking up processes\<close>

lemma wfind_sublist: "wfind s t \<noteq> None \<longleftrightarrow> sublist t s"
  by (induction s) (auto simp add: sublist_Cons_right)

lemma towlower_idem: "towlower (towlower c) = towlower c"
proof (cases "0x41 \<le> c \<and> c \<le> 0x5A")
  case True
  then have "unat c \<le> 90" by (simp add: word_le_nat_alt)
  then have "unat (c + 0x20) = unat c + 32" by (simp add: unat_add_lem [THEN iffD1])
  then have "\<not> c + 0x20 \<le> 0x5A" using True by (simp add: word_le_nat_alt)
  then show ?thesis by (simp add: towlower_def)
next
  case False
  then show ?thesis by (simp add: towlower_def)
qed

lemma ToLowerCase_idem: "ToLowerCase (ToLowerCase name) = ToLowerCase name"
  by (simp add: ToLowerCase_def towlower_idem)



subsection \<open>What the operations change\<close>

lemma InjectDll_state:
  "fst (snd (InjectDll sys pid s)) = s \<or>
   (payload_dll_path s \<noteq> [] \<and> injected_processes s pid = None \<and>
    (\<exists>m. m \<noteq> 0 \<and> fst (InjectDll sys pid s) \<and> fst (snd (InjectDll sys pid s)) =
       s\<lparr>injected_processes := (injected_processes s)(pid \<mapsto> m)\<rparr>))"
  by (auto simp add: InjectDll_def Let_def split: option.split)

lemma InjectDll_recorded:
  "payload_dll_path s \<noteq> [] \<Longrightarrow> injected_processes s pid = Some m \<Longrightarrow>
   InjectDll sys pid s = (True, s, [])"
  by (simp add: InjectDll_def)

lemma InjectDll_True:
  "fst (InjectDll sys pid s) \<Longrightarrow>
   payload_dll_path s \<noteq> [] \<and> injected_processes (fst (snd (InjectDll sys pid s))) pid \<noteq> None"
  by (auto simp add: InjectDll_def Let_def split: option.splits if_splits prod.splits)

lemma CallSetWindowVisibility_state:
  "fst (snd (CallSetWindowVisibility sys pid hwnd hide s)) = fst (snd (InjectDll sys pid s))"
  by (simp add: CallSetWindowVisibility_def Let_def split_beta split: option.split)

lemma HideProcessWindowsByPid_state:
  "fst (snd (HideProcessWindowsByPid sys pid hide s)) = s \<or>
   fst (snd (HideProcessWindowsByPid sys pid hide s)) = fst (snd (InjectDll sys pid s))"
  by (simp add: HideProcessWindowsByPid_def CallSetWindowVisibility_state split: list.split)


lemma InjectDll_frame:
  "payload_dll_path (fst (snd (InjectDll sys pid s))) = payload_dll_path s"
  "hidden_process_names (fst (snd (InjectDll sys pid s))) = hidden_process_names s"
  "initialized (fst (snd (InjectDll sys pid s))) = initialized s"
  using InjectDll_state [of sys pid s] by auto

lemma InjectDll_records:
  "injected_processes (fst (snd (InjectDll sys pid s))) p = Some m \<Longrightarrow>
   injected_processes s p = Some m \<or> payload_dll_path s \<noteq> []"
  using InjectDll_state [of sys pid s] by auto

lemma HideProcessWindowsByPid_frame:
  "payload_dll_path (fst (snd (HideProcessWindowsByPid sys pid hide s))) = payload_dll_path s"
  "hidden_process_names (fst (snd (HideProcessWindowsByPid sys pid hide s))) = hidden_process_names s"
  "initialized (fst (snd (HideProcessWindowsByPid sys pid hide s))) = initialized s"
  using HideProcessWindowsByPid_state [of sys pid hide s] by (auto simp add: InjectDll_frame)

lemma HideProcessWindowsByPid_records:
  "injected_processes (fst (snd (HideProcessWindowsByPid sys pid hide s))) p = Some m \<Longrightarrow>
   injected_processes s p = Some m \<or> payload_dll_path s \<noteq> []"
  using HideProcessWindowsByPid_state [of sys pid hide s] InjectDll_records [of sys pid s p m]
  by auto

lemma hide_pids_frame:
  "payload_dll_path (fst (snd (hide_pids sys hide pids n s))) = payload_dll_path s
   \<and> hidden_process_names (fst (snd (hide_pids sys hide pids n s))) = hidden_process_names s
   \<and> initialized (fst (snd (hide_pids sys hide pids n s))) = initialized s"
  by (induction pids arbitrary: n s)
     (simp_all add: split_beta Let_def HideProcessWindowsByPid_frame)

lemma hide_pids_records:
  "injected_processes (fst (snd (hide_pids sys hide pids n s))) p = Some m \<Longrightarrow>
   injected_processes s p = Some m \<or> payload_dll_path s \<noteq> []"
proof (induction pids arbitrary: n s)
  case Nil
  then show ?case by simp
next
  case (Cons pid pids)
  let ?s1 = "fst (snd (HideProcessWindowsByPid sys pid hide s))"
  from Cons.prems have "injected_processes
      (fst (snd (hide_pids sys hide pids
         (if fst (HideProcessWindowsByPid sys pid hide s) then n + 1 else n) ?s1))) p = Some m"
    by (simp add: split_beta Let_def)
  from Cons.IH [OF this] have "injected_processes ?s1 p = Some m \<or> payload_dll_path ?s1 \<noteq> []" .
  then show ?case
    using HideProcessWindowsByPid_records [of sys pid hide s p m]
    by (auto simp add: HideProcessWindowsByPid_frame)
qed

lemma HideProcessWindows_frame:
  "payload_dll_path (fst (snd (HideProcessWindows sys name hide s))) = payload_dll_path s"
  "initialized (fst (snd (HideProcessWindows sys name hide s))) = initialized s"
  by (simp_all add: HideProcessWindows_def Let_def split_beta hide_pids_frame)

lemma HideProcessWindows_hidden:
  "hidden_process_names (fst (snd (HideProcessWindows sys name hide s))) =
     (if 0 < fst (HideProcessWindows sys name hide s)
      then map_assign (ToLowerCase name) hide (hidden_process_names s)
      else hidden_process_names s)"
  by (simp add: HideProcessWindows_def Let_def split_beta hide_pids_frame)

lemma HideProcessWindows_records:
  "injected_processes (fst (snd (HideProcessWindows sys name hide s))) p = Some m \<Longrightarrow>
   injected_processes s p = Some m \<or> payload_dll_path s \<noteq> []"
  using hide_pids_records [of sys hide "GetProcessIdsByName sys name" 0 s p m]
  by (auto simp add: HideProcessWindows_def Let_def split_beta split: if_splits)


lemma restore_loop_frame:
  "payload_dll_path (fst (restore_loop sys ks s)) = payload_dll_path s
   \<and> initialized (fst (restore_loop sys ks s)) = initialized s"
  by (induction ks arbitrary: s) (simp_all add: split_beta Let_def HideProcessWindows_frame)

lemma RestoreAll_state:
  "payload_dll_path (fst (RestoreAll sys s)) = payload_dll_path s"
  "initialized (fst (RestoreAll sys s)) = initialized s"
  "hidden_process_names (fst (RestoreAll sys s)) = []"
  "injected_processes (fst (RestoreAll sys s)) = Map.empty"
  by (simp_all add: RestoreAll_def split_beta Let_def restore_loop_frame)

lemma run_Nil: "run [] = PrivacyInjector"
  by (simp add: run_def)

lemma run_snoc: "run (reqs @ [r]) = serve (run reqs) r"
  by (simp add: run_def)

lemma serve_records:
  assumes "injected_processes (serve s r) p = Some m"
    and "\<And>q n. injected_processes s q = Some n \<Longrightarrow> payload_dll_path s \<noteq> []"
  shows "payload_dll_path (serve s r) \<noteq> []"
proof (cases r)
  case (ReqInitialize sys path)
  with assms show ?thesis
    by (auto simp add: Initialize_def GetFileAttributesW_def split: if_splits)
next
  case (ReqHideProcessWindows sys name hide)
  with assms HideProcessWindows_records [of sys name hide s p m] show ?thesis
    by (auto simp add: HideProcessWindows_frame)
next
  case (ReqHideProcessWindowsByPid sys pid hide)
  with assms HideProcessWindowsByPid_records [of sys pid hide s p m] show ?thesis
    by (auto simp add: HideProcessWindowsByPid_frame)
next
  case (ReqRestoreAll sys)
  with assms show ?thesis by (simp add: RestoreAll_state)
qed

lemma run_records:
  "injected_processes (run reqs) p = Some m \<Longrightarrow> payload_dll_path (run reqs) \<noteq> []"
proof (induction reqs arbitrary: p m rule: rev_induct)
  case Nil
  then show ?case by (simp add: run_Nil PrivacyInjector_def)
next
  case (snoc r reqs)
  show ?case
    unfolding run_snoc
    by (rule serve_records [of "run reqs" r p m])
       (use snoc in \<open>simp_all add: run_snoc\<close>)
qed

lemma serve_initialized:
  "initialized (serve s r) = (initialized s \<or> initialize_succeeds r)"
  by (cases r)
     (auto simp add: Initialize_def HideProcessWindows_frame HideProcessWindowsByPid_frame
        RestoreAll_state)

lemma run_initialized:
  "initialized (run reqs) = list_ex initialize_succeeds reqs"
  by (induction reqs rule: rev_induct)
     (simp_all add: run_Nil run_snoc PrivacyInjector_def serve_initialized)

text \<open>
  Claim C8.  In every state the injector can reach, a process id that has an injection
  record is not injected again: \<open>InjectDll\<close> returns true at once, leaves the state (the
  record with it) as it is, and makes no call to the system: it opens no process,
  allocates no remote memory, starts no remote thread.  In particular an injection that
  has just succeeded makes the next one for the same id such a return.  The records are
  a map from process ids, so an id never has two.
\<close>

theorem InjectDll_idempotent:
  "(injected_processes (run reqs) pid = Some m \<longrightarrow>
      InjectDll sys pid (run reqs) = (True, run reqs, []))
   \<and> (fst (InjectDll sys pid s) \<longrightarrow>
      InjectDll sys' pid (fst (snd (InjectDll sys pid s)))
        = (True, fst (snd (InjectDll sys pid s)), []))"
proof (intro conjI impI)
  assume rec: "injected_processes (run reqs) pid = Some m"
  then have "payload_dll_path (run reqs) \<noteq> []" by (rule run_records)
  then show "InjectDll sys pid (run reqs) = (True, run reqs, [])"
    using rec by (rule InjectDll_recorded)
next
  let ?s' = "fst (snd (InjectDll sys pid s))"
  assume "fst (InjectDll sys pid s)"
  then have "payload_dll_path s \<noteq> []" and "injected_processes ?s' pid \<noteq> None"
    using InjectDll_True by blast+
  then obtain m where "payload_dll_path ?s' \<noteq> []" and "injected_processes ?s' pid = Some m"
    by (auto simp add: InjectDll_frame)
  then show "InjectDll sys' pid ?s' = (True, ?s', [])" by (rule InjectDll_recorded)
qed

text \<open>
  Claim C10.  While the injector is uninitialized, \<open>HideProcessWindows\<close> returns 0 for
  every name and flag, leaves the whole state (the hidden-state map and the injection
  records with it) unchanged and makes no call to the system; and the injector is
  uninitialized as long as no \<open>Initialize\<close> has succeeded.
\<close>

theorem HideProcessWindows_uninitialized:
  "(\<not> initialized s \<longrightarrow> HideProcessWindows sys name flag s = (0, s, []))
   \<and> (\<not> list_ex initialize_succeeds reqs \<longrightarrow>
        HideProcessWindows sys name flag (run reqs) = (0, run reqs, []))"
  by (simp add: HideProcessWindows_def run_initialized)

subsection \<open>The example machines\<close>

lemma initialized_injector_eval:
  "initialized_injector =
     \<lparr>payload_dll_path = payload_path, injected_processes = Map.empty,
      hidden_process_names = [], initialized = True\<rparr>"
  by (simp add: initialized_injector_def run_def Initialize_def GetFileAttributesW_def
      notepad_os_def PrivacyInjector_def payload_path_def L_def)

lemma notepad_ids: "GetProcessIdsByName notepad_os (L ''notepad'') = [1234]"
  by (simp add: GetProcessIdsByName_def notepad_os_def L_def ToLowerCase_def towlower_def)

lemma notepad_windows: "GetProcessWindows notepad_os 1234 = [0x100]"
  by (simp add: GetProcessWindows_def notepad_os_def)

lemma notepad_inject:
  "InjectDll notepad_os 1234 initialized_injector =
     (True, initialized_injector\<lparr>injected_processes := [1234 \<mapsto> 0x12340000]\<rparr>,
      [OpenProcess 1234, VirtualAllocEx 1234 40, WriteProcessMemory 1234 0x20000,
       CreateRemoteThread 1234 0x7FF800001000 0x20000, WaitForSingleObject 5000,
       CloseHandle_hThread 1234, VirtualFreeEx 1234 0x20000, CloseHandle_hProcess 1234])"
  by (simp add: InjectDll_def initialized_injector_eval notepad_os_def payload_path_def L_def)



subsection \<open>Instances\<close>

theorem InjectDll_idempotent_witness:
  "injected_processes (run [ReqInitialize notepad_os payload_path,
       ReqHideProcessWindowsByPid notepad_os 1234 True]) 1234 = Some 0x12340000
   \<and> InjectDll notepad_os 1234 (run [ReqInitialize notepad_os payload_path,
       ReqHideProcessWindowsByPid notepad_os 1234 True])
       = (True, run [ReqInitialize notepad_os payload_path,
                     ReqHideProcessWindowsByPid notepad_os 1234 True], [])
   \<and> fst (InjectDll notepad_os 1234 initialized_injector)
   \<and> InjectDll hung_os 1234 (fst (snd (InjectDll notepad_os 1234 initialized_injector)))
       = (True, fst (snd (InjectDll notepad_os 1234 initialized_injector)), [])"
proof -
  let ?reqs = "[ReqInitialize notepad_os payload_path,
                ReqHideProcessWindowsByPid notepad_os 1234 True]"
  have "run ?reqs = fst (snd (HideProcessWindowsByPid notepad_os 1234 True initialized_injector))"
    by (simp add: run_def initialized_injector_def)
  also have "\<dots> = fst (snd (InjectDll notepad_os 1234 initialized_injector))"
    by (simp add: HideProcessWindowsByPid_def notepad_windows CallSetWindowVisibility_state)
  finally have a: "injected_processes (run ?reqs) 1234 = Some 0x12340000"
    by (simp add: notepad_inject)
  have b: "fst (InjectDll notepad_os 1234 initialized_injector)"
    by (simp add: notepad_inject)
  from InjectDll_idempotent [where reqs = ?reqs and pid = 1234 and m = "0x12340000"
      and sys = notepad_os and s = initialized_injector and sys' = hung_os]
    a b
  show ?thesis by blast
qed

theorem HideProcessWindows_uninitialized_witness:
  "\<not> initialized PrivacyInjector
   \<and> HideProcessWindows notepad_os (L ''notepad'') True PrivacyInjector = (0, PrivacyInjector, [])
   \<and> \<not> list_ex initialize_succeeds [ReqInitialize no_payload_os payload_path,
          ReqHideProcessWindows notepad_os (L ''notepad'') True]
   \<and> HideProcessWindows notepad_os (L ''notepad'') True
        (run [ReqInitialize no_payload_os payload_path,
              ReqHideProcessWindows notepad_os (L ''notepad'') True])
      = (0, run [ReqInitialize no_payload_os payload_path,
                 ReqHideProcessWindows notepad_os (L ''notepad'') True], [])"
proof -
  have a: "\<not> initialized PrivacyInjector" by (simp add: PrivacyInjector_def)
  have b: "\<not> list_ex initialize_succeeds [ReqInitialize no_payload_os payload_path,
          ReqHideProcessWindows notepad_os (L ''notepad'') True]"
    by (simp add: GetFileAttributesW_def no_payload_os_def)
  from HideProcessWindows_uninitialized [of PrivacyInjector notepad_os "L ''notepad''" True
      "[ReqInitialize no_payload_os payload_path,
        ReqHideProcessWindows notepad_os (L ''notepad'') True]"] a b
  show ?thesis by blast
qed

lemma hung_inject:
  "InjectDll hung_os 1234 initialized_injector =
     (True, initialized_injector\<lparr>injected_processes := [1234 \<mapsto> 259]\<rparr>,
      [OpenProcess 1234, VirtualAllocEx 1234 40, WriteProcessMemory 1234 0x20000,
       CreateRemoteThread 1234 0x7FF800001000 0x20000, WaitForSingleObject 5000,
       CloseHandle_hThread 1234, VirtualFreeEx 1234 0x20000, CloseHandle_hProcess 1234])"
  by (simp add: InjectDll_def initialized_injector_eval hung_os_def notepad_os_def
      payload_path_def L_def)

lemma hung_call:
  "fst (CallSetWindowVisibility hung_os 1234 0x100 True initialized_injector) = True"
  by (simp add: CallSetWindowVisibility_def hung_inject Let_def)
     (simp add: hung_os_def notepad_os_def L_def hMods_held_def)

lemma hung_ids: "GetProcessIdsByName hung_os (L ''notepad'') = [1234]"
  by (simp add: GetProcessIdsByName_def hung_os_def notepad_os_def L_def ToLowerCase_def
      towlower_def)

lemma hung_windows: "GetProcessWindows hung_os 1234 = [0x100]"
  by (simp add: GetProcessWindows_def hung_os_def notepad_os_def)

text \<open>
  Claim C4 fails on the code.  Both waits are made, and neither result is looked at:
  when the remote \<open>LoadLibraryW\<close> thread has not ended after five seconds, the exit code
  read is \<open>STILL_ACTIVE\<close>; \<open>InjectDll\<close> takes it for the module handle, records it and
  returns true.  The remote call that follows times out in the same way, its exit code
  259 is taken for a count of windows, and \<open>HideProcessWindows\<close> reports one process
  affected.
\<close>

theorem timeout_taken_for_success:
  "remote_thread hung_os 1234 (load_library_address hung_os) (virtual_alloc hung_os 1234 40)
     = Some (WAIT_TIMEOUT, 259)
   \<and> InjectDll hung_os 1234 initialized_injector
     = (True, initialized_injector\<lparr>injected_processes := [1234 \<mapsto> 259]\<rparr>,
        [OpenProcess 1234, VirtualAllocEx 1234 40, WriteProcessMemory 1234 0x20000,
         CreateRemoteThread 1234 0x7FF800001000 0x20000, WaitForSingleObject 5000,
         CloseHandle_hThread 1234, VirtualFreeEx 1234 0x20000, CloseHandle_hProcess 1234])
   \<and> fst (CallSetWindowVisibility hung_os 1234 0x100 True initialized_injector) = True
   \<and> fst (HideProcessWindows hung_os (L ''notepad'') True initialized_injector) = 1"
proof -
  have a: "remote_thread hung_os 1234 (load_library_address hung_os)
             (virtual_alloc hung_os 1234 40) = Some (WAIT_TIMEOUT, 259)"
    by (simp add: hung_os_def)
  have "initialized initialized_injector" by (simp add: initialized_injector_eval)
  then have b: "fst (HideProcessWindows hung_os (L ''notepad'') True initialized_injector) = 1"
    by (simp add: HideProcessWindows_def hung_ids Let_def split_beta
        HideProcessWindowsByPid_def hung_windows hung_call)
  show ?thesis using a hung_inject hung_call b by simp
qed

lemma notepad_call:
  "CallSetWindowVisibility notepad_os 1234 0x100 True initialized_injector =
     (True, initialized_injector\<lparr>injected_processes := [1234 \<mapsto> 0x12340000]\<rparr>,
      [OpenProcess 1234, VirtualAllocEx 1234 40, WriteProcessMemory 1234 0x20000,
       CreateRemoteThread 1234 0x7FF800001000 0x20000, WaitForSingleObject 5000,
       CloseHandle_hThread 1234, VirtualFreeEx 1234 0x20000, CloseHandle_hProcess 1234,
       OpenProcess 1234, LoadLibraryW payload_path, FreeLibrary 0x180000000,
       CreateRemoteThread 1234 0x7FF812341100 1, WaitForSingleObject 5000,
       CloseHandle_hThread 1234, CloseHandle_hProcess 1234])"
  by (simp add: CallSetWindowVisibility_def notepad_inject Let_def)
     (simp add: notepad_os_def L_def initialized_injector_eval hMods_held_def)

lemma notepad_hidden_eval:
  "notepad_hidden =
     \<lparr>payload_dll_path = payload_path, injected_processes = [1234 \<mapsto> 0x12340000],
      hidden_process_names = [(L ''notepad'', True)], initialized = True\<rparr>"
proof -
  have "notepad_hidden =
      fst (snd (HideProcessWindows notepad_os (L ''notepad'') True initialized_injector))"
    by (simp add: notepad_hidden_def initialized_injector_def run_def)
  also have "\<dots> = initialized_injector\<lparr>injected_processes := [1234 \<mapsto> 0x12340000],
      hidden_process_names := [(ToLowerCase (L ''notepad''), True)]\<rparr>"
    by (simp add: HideProcessWindows_def notepad_ids Let_def split_beta
        HideProcessWindowsByPid_def notepad_windows notepad_call)
       (simp add: initialized_injector_eval)
  also have "ToLowerCase (L ''notepad'') = L ''notepad''"
    by (simp add: L_def ToLowerCase_def towlower_def)
  finally have "notepad_hidden = initialized_injector\<lparr>injected_processes := [1234 \<mapsto> 0x12340000],
      hidden_process_names := [(L ''notepad'', True)]\<rparr>" .
  then show ?thesis unfolding initialized_injector_eval by (simp add: fun_upd_def)
qed

lemma notepad_second_call:
  "CallSetWindowVisibility notepad_os 1234 0x100 True notepad_hidden =
     (True, notepad_hidden,
      [OpenProcess 1234, LoadLibraryW payload_path, FreeLibrary 0x180000000,
       CreateRemoteThread 1234 0x7FF812341100 1, WaitForSingleObject 5000,
       CloseHandle_hThread 1234, CloseHandle_hProcess 1234])"
proof -
  have "InjectDll notepad_os 1234 notepad_hidden = (True, notepad_hidden, [])"
    by (rule InjectDll_recorded [where m = "0x12340000"])
       (simp_all add: notepad_hidden_eval payload_path_def L_def)
  then show ?thesis
    by (simp add: CallSetWindowVisibility_def Let_def)
       (simp add: notepad_os_def L_def notepad_hidden_eval hMods_held_def)
qed

lemma CallSetWindowVisibility_after_injection:
  "drop (length (snd (snd (InjectDll sys pid s))))
        (snd (snd (CallSetWindowVisibility sys pid hwnd hide s))) =
     (let s1 = fst (snd (InjectDll sys pid s));
          targetModule = (case process_modules sys pid of
                            Some modules \<Rightarrow> find_payload_module sys pid (hMods_held modules)
                          | None \<Rightarrow> 0);
          localDll = load_library sys (payload_dll_path s1);
          localHideAll = proc_address sys localDll ''HideAllProcessWindows'';
          remoteHideAll = targetModule + (localHideAll - localDll);
          lpParameter = (if hide then 1 else 0)
      in if \<not> fst (InjectDll sys pid s) then []
         else if \<not> can_open sys pid then [OpenProcess pid]
         else if targetModule = 0 then [OpenProcess pid, CloseHandle_hProcess pid]
         else if localDll = 0
         then [OpenProcess pid, LoadLibraryW (payload_dll_path s1), CloseHandle_hProcess pid]
         else if localHideAll = 0
         then [OpenProcess pid, LoadLibraryW (payload_dll_path s1), FreeLibrary localDll,
               CloseHandle_hProcess pid]
         else [OpenProcess pid, LoadLibraryW (payload_dll_path s1), FreeLibrary localDll,
               CreateRemoteThread pid remoteHideAll lpParameter] @
              (case remote_thread sys pid remoteHideAll lpParameter of
                 None \<Rightarrow> [CloseHandle_hProcess pid]
               | Some r \<Rightarrow> [WaitForSingleObject 5000, CloseHandle_hThread pid,
                             CloseHandle_hProcess pid]))"
  by (simp add: CallSetWindowVisibility_def Let_def split_beta split: option.split)

lemma names_payload_wfind:
  "names_payload sys pid h =
     (case module_file_name sys pid h of
        None \<Rightarrow> False
      | Some modName \<Rightarrow> wfind modName (L ''privacy_payload.dll'') \<noteq> None)"
  using wfind_sublist by (auto simp add: names_payload_def split: option.split)

lemma find_payload_module_simps:
  "find_payload_module sys pid (h # hMods) =
     (if names_payload sys pid h then h else find_payload_module sys pid hMods)"
  by (simp add: names_payload_wfind split: option.split)

lemma find_payload_module_first:
  "find_payload_module sys pid hMods \<noteq> 0 \<Longrightarrow>
   \<exists>i < length hMods. find_payload_module sys pid hMods = hMods ! i
      \<and> names_payload sys pid (hMods ! i)
      \<and> (\<forall>j < i. \<not> names_payload sys pid (hMods ! j))"
proof (induction hMods)
  case Nil
  then show ?case by simp
next
  case (Cons h hMods)
  show ?case
  proof (cases "names_payload sys pid h")
    case True
    then have "find_payload_module sys pid (h # hMods) = (h # hMods) ! 0
        \<and> names_payload sys pid ((h # hMods) ! 0)
        \<and> (\<forall>j < 0. \<not> names_payload sys pid ((h # hMods) ! j))"
      by (simp add: find_payload_module_simps del: find_payload_module.simps)
    then show ?thesis by blast
  next
    case False
    then have eq: "find_payload_module sys pid (h # hMods) = find_payload_module sys pid hMods"
      by (simp add: find_payload_module_simps del: find_payload_module.simps)
    with Cons.prems have "find_payload_module sys pid hMods \<noteq> 0" by simp
    from Cons.IH [OF this] obtain i where i: "i < length hMods"
      "find_payload_module sys pid hMods = hMods ! i"
      "names_payload sys pid (hMods ! i)"
      "\<forall>j < i. \<not> names_payload sys pid (hMods ! j)"
      by blast
    have "\<forall>j < Suc i. \<not> names_payload sys pid ((h # hMods) ! j)"
    proof (intro allI impI)
      fix j assume "j < Suc i"
      then show "\<not> names_payload sys pid ((h # hMods) ! j)"
        using False i(4) by (cases j) simp_all
    qed
    with i eq have "Suc i < length (h # hMods)
        \<and> find_payload_module sys pid (h # hMods) = (h # hMods) ! Suc i
        \<and> names_payload sys pid ((h # hMods) ! Suc i)
        \<and> (\<forall>j < Suc i. \<not> names_payload sys pid ((h # hMods) ! j))"
      by simp
    then show ?thesis by blast
  qed
qed

lemma hMods_held_nth:
  "i < length (hMods_held modules) \<Longrightarrow>
   i < 1024 \<and> i < length modules \<and> hMods_held modules ! i = modules ! i"
  by (simp add: hMods_held_def)

text \<open>
  Claim C5, amended.  Whenever \<open>CallSetWindowVisibility\<close>, having made sure of the
  injection, starts a remote thread, it starts it in the target process, with the flag
  as its argument, at this address: the handle of the first module, among the first 1024
  that the enumeration of the target's modules yields, whose file name contains
  \<open>privacy_payload.dll\<close>, plus the offset of \<open>HideAllProcessWindows\<close> from the base of a
  fresh local load of the payload.  The base in the injection record is not used.
\<close>

theorem remote_call_address:
  assumes "CreateRemoteThread p start arg \<in>
             set (drop (length (snd (snd (InjectDll sys pid s))))
                       (snd (snd (CallSetWindowVisibility sys pid hwnd hide s))))"
  shows "p = pid \<and> arg = (if hide then 1 else 0)
       \<and> (\<exists>modules i. process_modules sys pid = Some modules
            \<and> i < length modules \<and> i < 1024
            \<and> names_payload sys pid (modules ! i)
            \<and> (\<forall>j < i. \<not> names_payload sys pid (modules ! j))
            \<and> start = modules ! i
                 + (proc_address sys (load_library sys (payload_dll_path s))
                      ''HideAllProcessWindows''
                    - load_library sys (payload_dll_path s)))"
proof -
  let ?off = "proc_address sys (load_library sys (payload_dll_path s)) ''HideAllProcessWindows''
                - load_library sys (payload_dll_path s)"
  from assms have a: "p = pid \<and> arg = (if hide then 1 else 0)
       \<and> (\<exists>modules. process_modules sys pid = Some modules
            \<and> find_payload_module sys pid (hMods_held modules) \<noteq> 0
            \<and> start = find_payload_module sys pid (hMods_held modules) + ?off)"
    unfolding CallSetWindowVisibility_after_injection Let_def InjectDll_frame
    by (auto split: if_splits option.splits)
  then obtain modules where m: "process_modules sys pid = Some modules"
    "find_payload_module sys pid (hMods_held modules) \<noteq> 0"
    "start = find_payload_module sys pid (hMods_held modules) + ?off"
    by blast
  from find_payload_module_first [OF m(2)] obtain i where i:
    "i < length (hMods_held modules)"
    "find_payload_module sys pid (hMods_held modules) = hMods_held modules ! i"
    "names_payload sys pid (hMods_held modules ! i)"
    "\<forall>j < i. \<not> names_payload sys pid (hMods_held modules ! j)"
    by blast
  from hMods_held_nth [OF i(1)] have b: "i < 1024" "i < length modules"
    "hMods_held modules ! i = modules ! i"
    by simp_all
  have c: "\<forall>j < i. \<not> names_payload sys pid (modules ! j)"
  proof (intro allI impI)
    fix j assume "j < i"
    with i(1) have "j < length (hMods_held modules)" by simp
    from hMods_held_nth [OF this] i(4) \<open>j < i\<close>
    show "\<not> names_payload sys pid (modules ! j)" by auto
  qed
  from m(1) m(3) i(2,3) b c have "process_modules sys pid = Some modules
      \<and> i < length modules \<and> i < 1024
      \<and> names_payload sys pid (modules ! i)
      \<and> (\<forall>j < i. \<not> names_payload sys pid (modules ! j))
      \<and> start = modules ! i + ?off"
    by simp
  with a show ?thesis by blast
qed

theorem remote_call_address_witness:
  "CreateRemoteThread 1234 0x7FF812341100 1 \<in>
     set (drop (length (snd (snd (InjectDll notepad_os 1234 notepad_hidden))))
               (snd (snd (CallSetWindowVisibility notepad_os 1234 0x100 True notepad_hidden))))
   \<and> (\<exists>modules i. process_modules notepad_os 1234 = Some modules
        \<and> i < length modules \<and> i < 1024
        \<and> names_payload notepad_os 1234 (modules ! i)
        \<and> (\<forall>j < i. \<not> names_payload notepad_os 1234 (modules ! j))
        \<and> 0x7FF812341100 = modules ! i
             + (proc_address notepad_os (load_library notepad_os (payload_dll_path notepad_hidden))
                  ''HideAllProcessWindows''
                - load_library notepad_os (payload_dll_path notepad_hidden)))"
proof -
  have "InjectDll notepad_os 1234 notepad_hidden = (True, notepad_hidden, [])"
    by (rule InjectDll_recorded [where m = "0x12340000"])
       (simp_all add: notepad_hidden_eval payload_path_def L_def)
  then have a: "CreateRemoteThread 1234 0x7FF812341100 1 \<in>
     set (drop (length (snd (snd (InjectDll notepad_os 1234 notepad_hidden))))
               (snd (snd (CallSetWindowVisibility notepad_os 1234 0x100 True notepad_hidden))))"
    by (simp add: notepad_second_call)
  from remote_call_address [OF a] a show ?thesis by blast
qed

text \<open>
  Claim C5 as stated fails: process 1234 has the injection record \<open>0x12340000\<close> (the
  exit code of the loading thread, 32 bits of the handle), the payload is found in it at
  \<open>0x7FF812340000\<close>, and the remote thread is started at that base plus the offset.
\<close>

theorem remote_call_not_at_recorded_base:
  "injected_processes notepad_hidden 1234 = Some 0x12340000
   \<and> snd (snd (CallSetWindowVisibility notepad_os 1234 0x100 True notepad_hidden))
     = [OpenProcess 1234, LoadLibraryW payload_path, FreeLibrary 0x180000000,
        CreateRemoteThread 1234 0x7FF812341100 1, WaitForSingleObject 5000,
        CloseHandle_hThread 1234, CloseHandle_hProcess 1234]
   \<and> (0x7FF812341100 :: addr) \<noteq>
       0x12340000 + (proc_address notepad_os (load_library notepad_os payload_path)
                       ''HideAllProcessWindows''
                     - load_library notepad_os payload_path)"
  by (simp add: notepad_second_call) (simp add: notepad_hidden_eval notepad_os_def)

subsection \<open>The hidden-state map\<close>

lemma map_of_map_assign: "map_of (map_assign k v m) = (map_of m)(k \<mapsto> v)"
  by (induction m) (auto simp add: fun_upd_twist)

lemma keys_map_assign: "set (map fst (map_assign k v m)) = insert k (set (map fst m))"
proof -
  have "set (map fst (map_assign k v m)) = dom (map_of (map_assign k v m))"
    by (simp add: dom_map_of_conv_image_fst)
  also have "\<dots> = insert k (dom (map_of m))" by (simp add: map_of_map_assign)
  also have "\<dots> = insert k (set (map fst m))" by (simp add: dom_map_of_conv_image_fst)
  finally show ?thesis .
qed

lemma sorted_map_assign:
  "sorted_wrt (<) (map fst m) \<Longrightarrow> sorted_wrt (<) (map fst (map_assign k v m))"
proof (induction m)
  case Nil
  then show ?case by simp
next
  case (Cons e m)
  obtain k' v' where e: "e = (k', v')" by (cases e)
  show ?case
  proof (cases "k = k'")
    case True
    with Cons.prems e show ?thesis by simp
  next
    case False
    show ?thesis
    proof (cases "k < k'")
      case True
      with Cons.prems e False show ?thesis by (auto simp add: less_trans)
    next
      case ge: False
      with False have "k' < k" by simp
      moreover from Cons.prems have "sorted_wrt (<) (map fst m)" by simp
      then have "sorted_wrt (<) (map fst (map_assign k v m))" by (rule Cons.IH)
      ultimately show ?thesis
        using Cons.prems e False ge keys_map_assign [of k v m] by auto
    qed
  qed
qed



















subsection \<open>Restoring\<close>

lemma serve_names_ok: "hidden_names_ok s \<Longrightarrow> hidden_names_ok (serve s r)"
proof (cases r)
  case (ReqInitialize sys path)
  assume "hidden_names_ok s"
  with ReqInitialize show ?thesis by (simp add: hidden_names_ok_def Initialize_def)
next
  case (ReqHideProcessWindows sys name hide)
  assume ok: "hidden_names_ok s"
  then have "sorted_wrt (<) (map fst (map_assign (ToLowerCase name) hide (hidden_process_names s)))"
    by (simp add: hidden_names_ok_def sorted_map_assign)
  moreover have "list_all (\<lambda>k. ToLowerCase k = k)
      (map fst (map_assign (ToLowerCase name) hide (hidden_process_names s)))"
    using ok keys_map_assign [of "ToLowerCase name" hide "hidden_process_names s"]
    by (auto simp add: hidden_names_ok_def list_all_iff ToLowerCase_idem)
  ultimately show ?thesis
    using ok ReqHideProcessWindows
    by (simp add: hidden_names_ok_def HideProcessWindows_hidden)
next
  case (ReqHideProcessWindowsByPid sys pid hide)
  assume "hidden_names_ok s"
  with ReqHideProcessWindowsByPid show ?thesis
    by (simp add: hidden_names_ok_def HideProcessWindowsByPid_frame)
next
  case (ReqRestoreAll sys)
  then show ?thesis by (simp add: hidden_names_ok_def RestoreAll_state)
qed

lemma run_names_ok: "hidden_names_ok (run reqs)"
proof (induction reqs rule: rev_induct)
  case Nil
  show ?case by (simp add: run_Nil hidden_names_ok_def PrivacyInjector_def)
next
  case (snoc r reqs)
  then show ?case by (simp add: run_snoc serve_names_ok)
qed

lemma hidden_keys_filter:
  "distinct (map fst m) \<Longrightarrow>
   filter (\<lambda>k. map_of m k = Some True) (map fst m) = map fst (filter snd m)"
proof (induction m)
  case Nil
  then show ?case by simp
next
  case (Cons e m)
  obtain k v where e: "e = (k, v)" by (cases e)
  from Cons.prems e have notin: "k \<notin> set (map fst m)" and d: "distinct (map fst m)" by simp_all
  have "filter (\<lambda>k'. map_of (e # m) k' = Some True) (map fst m)
        = filter (\<lambda>k'. map_of m k' = Some True) (map fst m)"
    by (rule filter_cong) (use notin e in auto)
  then show ?case using Cons.IH [OF d] e by auto
qed

lemma restore_loop_show_each:
  assumes "distinct ks" and "list_all (\<lambda>k. ToLowerCase k = k) ks"
  shows "restore_loop sys ks s =
     show_each sys (filter (\<lambda>k. map_of (hidden_process_names s) k = Some True) ks) s"
  using assms
proof (induction ks arbitrary: s)
  case Nil
  then show ?case by simp
next
  case (Cons k ks)
  have d: "distinct ks" and l: "list_all (\<lambda>k. ToLowerCase k = k) ks"
    and low: "ToLowerCase k = k" and notin: "k \<notin> set ks"
    using Cons.prems by simp_all
  note IH = Cons.IH [OF d l]
  show ?case
  proof (cases "map_of (hidden_process_names s) k = Some True")
    case True
    let ?s1 = "fst (snd (HideProcessWindows sys k False s))"
    have "filter (\<lambda>k'. map_of (hidden_process_names ?s1) k' = Some True) ks
          = filter (\<lambda>k'. map_of (hidden_process_names s) k' = Some True) ks"
      by (rule filter_cong)
         (use notin low in \<open>auto simp add: HideProcessWindows_hidden map_of_map_assign\<close>)
    with IH [of ?s1] True show ?thesis by (simp add: split_beta Let_def)
  next
    case False
    with IH [of s] show ?thesis by simp
  qed
qed

text \<open>
  Claim C6.  In every state the injector can reach, \<open>RestoreAll\<close> does what the show
  operation \<open>HideProcessWindows(name, false)\<close> does when called for each name that
  \<open>GetHiddenProcesses\<close> lists, in that order, and then clears the hidden-state map and
  the injection records; and in any state whatever, \<open>GetHiddenProcesses\<close> right after
  \<open>RestoreAll\<close> returns the empty sequence.
\<close>

theorem RestoreAll_shows_and_clears:
  "RestoreAll sys (run reqs) =
     (fst (show_each sys (GetHiddenProcesses (run reqs)) (run reqs))
        \<lparr>hidden_process_names := [], injected_processes := Map.empty\<rparr>,
      snd (show_each sys (GetHiddenProcesses (run reqs)) (run reqs)))
   \<and> GetHiddenProcesses (fst (RestoreAll sys s)) = []
   \<and> hidden_process_names (fst (RestoreAll sys s)) = []
   \<and> injected_processes (fst (RestoreAll sys s)) = Map.empty"
proof (intro conjI)
  let ?s = "run reqs"
  let ?m = "hidden_process_names ?s"
  have ok: "hidden_names_ok ?s" by (rule run_names_ok)
  then have sorted: "sorted_wrt (<) (map fst ?m)"
    and low: "list_all (\<lambda>k. ToLowerCase k = k) (map fst ?m)"
    by (simp_all add: hidden_names_ok_def)
  from sorted have d: "distinct (map fst ?m)"
    by (simp add: strict_sorted_iff)
  have "restore_loop sys (map fst ?m) ?s =
          show_each sys (filter (\<lambda>k. map_of ?m k = Some True) (map fst ?m)) ?s"
    using d low by (rule restore_loop_show_each)
  also have "filter (\<lambda>k. map_of ?m k = Some True) (map fst ?m) = GetHiddenProcesses ?s"
    using hidden_keys_filter [OF d] by (simp add: GetHiddenProcesses_def)
  finally show "RestoreAll sys ?s =
     (fst (show_each sys (GetHiddenProcesses ?s) ?s)
        \<lparr>hidden_process_names := [], injected_processes := Map.empty\<rparr>,
      snd (show_each sys (GetHiddenProcesses ?s) ?s))"
    by (simp add: RestoreAll_def split_beta Let_def)
  show "GetHiddenProcesses (fst (RestoreAll sys s)) = []"
    by (simp add: GetHiddenProcesses_def RestoreAll_state)
  show "hidden_process_names (fst (RestoreAll sys s)) = []" by (simp add: RestoreAll_state)
  show "injected_processes (fst (RestoreAll sys s)) = Map.empty" by (simp add: RestoreAll_state)
qed

end
